theory Spec2Isabelle
  imports Complex_Main
begin

section \<open>Numbers and the JavaScript library functions the code calls\<close>

text \<open>
  The TypeScript sources compute with JavaScript numbers. They are modelled as
  \<^typ>\<open>real\<close>: the idealisation in which every arithmetic operation is exact; NaN,
  the infinities and the sign of zero are not represented. The library functions
  below are given by their ECMAScript definitions on finite numbers.
\<close>

definition Math_trunc :: "real \<Rightarrow> int" where
  \<comment> \<open>\<open>Math.trunc\<close>: the integer part, rounding toward zero.\<close>
  "Math_trunc v = (if 0 \<le> v then \<lfloor>v\<rfloor> else \<lceil>v\<rceil>)"

definition Math_round :: "real \<Rightarrow> int" where
  \<comment> \<open>\<open>Math.round\<close>: the nearest integer, a tie going toward plus infinity.\<close>
  "Math_round v = \<lfloor>v + 1 / 2\<rfloor>"

definition toFixed2 :: "real \<Rightarrow> real" where
  \<comment> \<open>\<open>Number(v.toFixed(2))\<close>: the nearest multiple of 1/100; of two equally near
      ones the larger in magnitude (the sign is split off first).\<close>
  "toFixed2 v =
     (if 0 \<le> v then real_of_int \<lfloor>v * 100 + 1 / 2\<rfloor> / 100
      else - (real_of_int \<lfloor>- v * 100 + 1 / 2\<rfloor> / 100))"

definition Math_atan2 :: "real \<Rightarrow> real \<Rightarrow> real" where
  \<comment> \<open>\<open>Math.atan2(y, x)\<close>: the angle of the point \<open>(x, y)\<close>, in radians.\<close>
  "Math_atan2 y x =
     (if 0 < x then arctan (y / x)
      else if x < 0 then (if 0 \<le> y then arctan (y / x) + pi else arctan (y / x) - pi)
      else if 0 < y then pi / 2
      else if y < 0 then - (pi / 2)
      else 0)"

section \<open>useZoomController\<close>

record PaperZoomEvent =
  zoomRatio :: real
  prevZoomRatio :: real

text \<open>
  The hook's props and its one ref cell. \<open>currentWindow\<close> is the target of
  \<open>dispatchEvent\<close>; the events dispatched on it are returned as a list.
\<close>

record ZoomController =
  zoomRatioStep :: real
  minZoomRatio :: real
  prevZoomRatioRef :: real




definition getZoomRatio :: "ZoomController \<Rightarrow> real" where
  "getZoomRatio c = prevZoomRatioRef c"




definition setZoomRatio :: "real \<Rightarrow> ZoomController \<Rightarrow> ZoomController \<times> PaperZoomEvent list" where
  \<comment> \<open>assigns the ref cell; nothing is dispatched\<close>
  "setZoomRatio r c = (c\<lparr>prevZoomRatioRef := r\<rparr>, [])"


section \<open>useSwipe: the motion sampler\<close>

record Position =
  pos_x :: real
  pos_y :: real
  timeStamp :: real

datatype Direction = DirNone | DirLeft | DirRight | DirUp | DirDown

datatype DirectionType = horizontal | vertical

record SwiperMatrix =
  startX :: real
  startY :: real
  startTimeStamp :: real
  distanceX :: real
  distanceY :: real
  direction :: Direction
  acceleration :: real
  positions :: "Position list"
  force :: real
  directionAngle :: real

text \<open>
  The props of the hook that are data. The three callback props \<open>onStart\<close>, \<open>onMove\<close>
  and \<open>onEnd\<close> are modelled by the list of calls a handler makes, in order.
\<close>

record SwipeProps =
  directionType :: DirectionType
  threshold :: real

definition defaultSwipeProps :: SwipeProps where
  "defaultSwipeProps = \<lparr>directionType = horizontal, threshold = 30\<rparr>"

datatype SwipeCallback =
  OnStart SwiperMatrix
| OnMove SwiperMatrix
| OnEnd SwiperMatrix bool

text \<open>
  The state of the hook: the two ref cells, and the number of \<open>handleMove\<close> /
  \<open>handleEnd\<close> closure pairs currently registered on the window (each
  \<open>handleStart\<close> registers a fresh pair, each \<open>handleEnd\<close> removes its own).
\<close>

record Swipe =
  swiperMatrix :: SwiperMatrix
  isSwiping :: bool
  listeners :: nat

definition initialSwiperMatrix :: SwiperMatrix where
  "initialSwiperMatrix =
     \<lparr>startX = 0, startY = 0, startTimeStamp = 0, distanceX = 0, distanceY = 0,
      direction = DirNone, acceleration = 0,
      positions = [\<lparr>pos_x = 0, pos_y = 0, timeStamp = 0\<rparr>],
      force = 0, directionAngle = 0\<rparr>"

definition useSwipe :: Swipe where
  "useSwipe = \<lparr>swiperMatrix = initialSwiperMatrix, isSwiping = False, listeners = 0\<rparr>"

text \<open>A mouse or touch event: the coordinates of the pointer and the event's time stamp.\<close>

record PointerEvent =
  clientX :: real
  clientY :: real
  eventTimeStamp :: real

definition getDirection :: "DirectionType \<Rightarrow> real \<Rightarrow> real \<Rightarrow> Direction" where
  "getDirection dt dX dY =
     (if dt = horizontal
      then (if dX = 0 then DirNone else if dX < 0 then DirLeft else DirRight)
      else (if dY = 0 then DirNone else if dY < 0 then DirUp else DirDown))"

subsection \<open>calculateForceAndDirection\<close>

text \<open>
  The first loop, \<open>for (let i = 1; i < relevantPositions.length - 1; i++)\<close>, with its
  three accumulators \<open>force\<close>, \<open>totalDx\<close> and \<open>totalDy\<close>. The bound is computed in
  \<^typ>\<open>int\<close>, as \<open>length - 1\<close> is \<open>-1\<close> for the empty array.
\<close>

function forceLoop :: "Position list \<Rightarrow> nat \<Rightarrow> real \<times> real \<times> real \<Rightarrow> real \<times> real \<times> real" where
  "forceLoop rel i (f, totalDx, totalDy) =
     (if int i < int (length rel) - 1 then
        (let dx = pos_x (rel ! i) - pos_x (rel ! (i - 1));
             dy = pos_y (rel ! i) - pos_y (rel ! (i - 1));
             dt = timeStamp (rel ! i) - timeStamp (rel ! (i - 1));
             speed = (if dt = 0 then 0 else sqrt (dx * dx + dy * dy) / dt)
         in forceLoop rel (i + 1) (f + speed, totalDx + dx, totalDy + dy))
      else (f, totalDx, totalDy))"
  by pat_completeness auto
termination
  by (relation "measure (\<lambda>(rel, i, acc). length rel - i)") auto

declare forceLoop.simps [simp del]

text \<open>
  The second loop, \<open>for (let i = 1; i < Math.min(LAST_POSITION_COUNT,
  positions.length - 1); i++)\<close>, walking backward from the last sample. The result is
  the final value of \<open>isForceZero\<close>: \<open>False\<close> when the loop leaves through \<open>break\<close>.
\<close>

function momentumLoop :: "Position list \<Rightarrow> nat \<Rightarrow> real \<Rightarrow> real \<Rightarrow> bool" where
  "momentumLoop ps i totalLastTime totalLastDisplacement =
     (if int i < min 10 (int (length ps) - 1) then
        (let dx = pos_x (ps ! (length ps - i)) - pos_x (ps ! (length ps - 1 - i));
             dy = pos_y (ps ! (length ps - i)) - pos_y (ps ! (length ps - 1 - i));
             dt = timeStamp (ps ! (length ps - i)) - timeStamp (ps ! (length ps - 1 - i));
             totalLastTime' = totalLastTime + dt;
             totalLastDisplacement' = totalLastDisplacement + sqrt (dx * dx + dy * dy)
         in if totalLastDisplacement' > 10 \<and> totalLastTime' < 100 then False
            else momentumLoop ps (i + 1) totalLastTime' totalLastDisplacement')
      else True)"
  by pat_completeness auto
termination
proof (relation "measure (\<lambda>(ps, i, t, d). length ps - i)")
  show "wf (measure (\<lambda>(ps, i, t, d). length ps - i))" by simp
next
  fix ps :: "Position list" and i :: nat and t t' d d' :: real
  assume "int i < min 10 (int (length ps) - 1)"
  then have "i < length ps" by linarith
  then show "((ps, i + 1, t', d'), ps, i, t, d) \<in> measure (\<lambda>(ps, i, t, d). length ps - i)"
    by simp
qed

declare momentumLoop.simps [simp del]

text \<open>The result \<open>{force, directionAngle}\<close> is the pair \<open>(force, directionAngle)\<close>.\<close>

definition calculateForceAndDirection :: "Position list \<Rightarrow> real \<times> real" where
  "calculateForceAndDirection ps =
     (let relevantPositions = drop (nat (max (int (length ps) - 10) 0)) ps;
          (f, totalDx, totalDy) = forceLoop relevantPositions 1 (0, 0, 0);
          angle = Math_atan2 totalDy totalDx * (180 / pi);
          isForceZero = momentumLoop ps 1 0 0;
          f' = (if isForceZero then 0 else f)
      in (min f' 7, real_of_int (Math_round (angle / 15)) * 15))"

subsection \<open>The event handlers\<close>


definition handleMove :: "SwipeProps \<Rightarrow> Swipe \<Rightarrow> PointerEvent \<Rightarrow> Swipe \<times> SwipeCallback list" where
  "handleMove props s ev =
     (if \<not> isSwiping s then (s, [])
      else
        (let m0 = swiperMatrix s;
             dX = clientX ev - startX m0;
             dY = clientY ev - startY m0;
             m = m0\<lparr>distanceX := dX, distanceY := dY,
                    direction := getDirection (directionType props) dX dY,
                    positions := positions m0 @
                      [\<lparr>pos_x = clientX ev, pos_y = clientY ev,
                        timeStamp = eventTimeStamp ev\<rparr>]\<rparr>
         in (s\<lparr>swiperMatrix := m\<rparr>, [OnMove m])))"

text \<open>
  In \<open>handleEnd\<close> the quotient \<open>distance / (timeStamp - startTimeStamp)\<close> is taken in the
  reals, where a zero divisor gives 0 (JavaScript gives Infinity or NaN); no
  result below depends on \<open>acceleration\<close>.
\<close>

definition handleEnd :: "SwipeProps \<Rightarrow> Swipe \<Rightarrow> PointerEvent \<Rightarrow> Swipe \<times> SwipeCallback list" where
  "handleEnd props s ev =
     (let m0 = swiperMatrix s;
          dX = clientX ev - startX m0;
          dY = clientY ev - startY m0;
          ps = positions m0 @
                 [\<lparr>pos_x = clientX ev, pos_y = clientY ev, timeStamp = eventTimeStamp ev\<rparr>];
          distance = (if directionType props = horizontal then dX else dY);
          (f, a) = calculateForceAndDirection ps;
          m1 = m0\<lparr>distanceX := dX, distanceY := dY,
                  direction := getDirection (directionType props) dX dY,
                  positions := ps, force := f, directionAngle := a\<rparr>;
          s1 = s\<lparr>isSwiping := False, listeners := listeners s - 1\<rparr>
      in if \<bar>distance\<bar> > threshold props
         then (let m2 = m1\<lparr>acceleration :=
                              \<bar>distance / (eventTimeStamp ev - startTimeStamp m0)\<bar>\<rparr>
               in (s1\<lparr>swiperMatrix := m2\<rparr>, [OnEnd m2 True]))
         else (s1\<lparr>swiperMatrix := m1\<rparr>, [OnEnd m1 False]))"

text \<open>
  The window delivering a move event: every registered \<open>handleMove\<close> closure runs.
  Before the first start, and after the end of a gesture, none is registered.
\<close>

fun runHandlers ::
  "nat \<Rightarrow> (Swipe \<Rightarrow> PointerEvent \<Rightarrow> Swipe \<times> SwipeCallback list) \<Rightarrow> Swipe \<Rightarrow> PointerEvent
   \<Rightarrow> Swipe \<times> SwipeCallback list" where
  "runHandlers 0 h s ev = (s, [])"
| "runHandlers (Suc n) h s ev =
     (let (s1, cs1) = h s ev; (s2, cs2) = runHandlers n h s1 ev in (s2, cs1 @ cs2))"

definition windowMove :: "SwipeProps \<Rightarrow> Swipe \<Rightarrow> PointerEvent \<Rightarrow> Swipe \<times> SwipeCallback list" where
  "windowMove props s ev = runHandlers (listeners s) (handleMove props) s ev"


subsection \<open>The estimator as the specification words it\<close>

text \<open>
  The reference definition of the force: over the last 10 samples (fewer when fewer
  were recorded) the speeds of all consecutive pairs are summed and the sum is
  capped at 7; the result is 0 unless, walking backward through the same pairs, the
  accumulated displacement exceeds 10 while the accumulated time is below 100.
\<close>

definition spec_speed :: "Position \<times> Position \<Rightarrow> real" where
  "spec_speed pq =
     (let dx = pos_x (snd pq) - pos_x (fst pq);
          dy = pos_y (snd pq) - pos_y (fst pq);
          dt = timeStamp (snd pq) - timeStamp (fst pq)
      in if dt = 0 then 0 else sqrt (dx * dx + dy * dy) / dt)"

fun spec_walk :: "(Position \<times> Position) list \<Rightarrow> real \<Rightarrow> real \<Rightarrow> bool" where
  "spec_walk [] t d = False"
| "spec_walk (pq # r) t d =
     (let dx = pos_x (snd pq) - pos_x (fst pq);
          dy = pos_y (snd pq) - pos_y (fst pq);
          t' = t + (timeStamp (snd pq) - timeStamp (fst pq));
          d' = d + sqrt (dx * dx + dy * dy)
      in if d' > 10 \<and> t' < 100 then True else spec_walk r t' d')"

definition spec_force :: "Position list \<Rightarrow> real" where
  "spec_force ps =
     (let w = drop (length ps - 10) ps;
          pairs = zip w (tl w);
          raw = sum_list (map spec_speed pairs)
      in if spec_walk (rev pairs) 0 0 then min raw 7 else 0)"

section \<open>ZoomViewer\<close>

subsection \<open>The element's transform\<close>

text \<open>
  The viewer keeps the transform state in \<open>element.style.transform\<close>, a string of
  transform functions, and edits it with two regular expressions: a component that
  is present is replaced (the first match), one that is absent is appended. The
  string is modelled by the list of its components. \<open>translate3d\<close> is only ever
  written with truncated pixel values and a zero third coordinate, \<open>scale\<close> with a
  value of two decimals.
\<close>

datatype TransformFunction = Translate3d int int | Scale real

type_synonym Transform = "TransformFunction list"

fun isTranslate :: "TransformFunction \<Rightarrow> bool" where
  "isTranslate (Translate3d a b) = True"
| "isTranslate (Scale k) = False"

fun isScale :: "TransformFunction \<Rightarrow> bool" where
  "isScale (Translate3d a b) = False"
| "isScale (Scale k) = True"

fun replaceFirst ::
  "(TransformFunction \<Rightarrow> bool) \<Rightarrow> TransformFunction \<Rightarrow> Transform \<Rightarrow> Transform" where
  "replaceFirst p new [] = []"
| "replaceFirst p new (c # cs) = (if p c then new # cs else c # replaceFirst p new cs)"

definition writeComponent ::
  "(TransformFunction \<Rightarrow> bool) \<Rightarrow> TransformFunction \<Rightarrow> Transform \<Rightarrow> Transform" where
  \<comment> \<open>\<open>REGEX.test(t) ? t.replace(REGEX, new) : `${t} ${new}`\<close>\<close>
  "writeComponent p new t = (if list_ex p t then replaceFirst p new t else t @ [new])"

text \<open>
  \<open>getComputedStyle(element).transform\<close> read as a \<open>DOMMatrixReadOnly\<close>: the product of
  the components in order. Only \<open>m11\<close> (the scale), \<open>m41\<close> and \<open>m42\<close> (the
  translation) are read; the empty transform is the identity.
\<close>

fun matrixFrom :: "real \<times> real \<times> real \<Rightarrow> Transform \<Rightarrow> real \<times> real \<times> real" where
  "matrixFrom (m11, m41, m42) [] = (m11, m41, m42)"
| "matrixFrom (m11, m41, m42) (Translate3d a b # cs) =
     matrixFrom (m11, m41 + m11 * real_of_int a, m42 + m11 * real_of_int b) cs"
| "matrixFrom (m11, m41, m42) (Scale k # cs) = matrixFrom (m11 * k, m41, m42) cs"

definition getPrevTransformedPosition :: "Transform \<Rightarrow> real \<times> real" where
  "getPrevTransformedPosition el = (case matrixFrom (1, 0, 0) el of (m11, m41, m42) \<Rightarrow> (m41, m42))"

definition getPrevTransformedScale :: "Transform \<Rightarrow> real" where
  "getPrevTransformedScale el = (case matrixFrom (1, 0, 0) el of (m11, m41, m42) \<Rightarrow> m11)"

text \<open>The value of the first \<open>scale(...)\<close> component of the style, if there is one.\<close>

fun styleScale :: "Transform \<Rightarrow> real option" where
  "styleScale [] = None"
| "styleScale (Scale k # cs) = Some k"
| "styleScale (Translate3d a b # cs) = styleScale cs"

text \<open>The factor a component contributes to \<open>m11\<close>.\<close>

fun scaleFactor :: "TransformFunction \<Rightarrow> real" where
  "scaleFactor (Translate3d a b) = 1"
| "scaleFactor (Scale k) = k"

subsection \<open>animateTransform\<close>

definition MIN_ZOOM_RATIO :: real where
  "MIN_ZOOM_RATIO = 1 / 2"

text \<open>
  One run of the inner function \<open>animate\<close> at the frame time \<open>currentTime\<close>. The
  captured values are the duration, the start time and the transform values read
  when \<open>animateTransform\<close> was called. The result is the new style and whether the
  next frame was requested.
\<close>

definition animate ::
  "real \<Rightarrow> real \<Rightarrow> real \<times> real \<times> real \<Rightarrow> real option \<Rightarrow> (real \<times> real) option
   \<Rightarrow> Transform \<Rightarrow> real \<Rightarrow> Transform \<times> bool" where
  "animate duration startTime prev targetScale targetPosition el currentTime =
     (case prev of (prevX, prevY, prevScale) \<Rightarrow>
      (let elapsedTime = currentTime - startTime;
           progress = (if duration = 0 then 1 else min (elapsedTime / duration) 1);
           nextScale =
             max (case targetScale of Some sc \<Rightarrow> prevScale + (sc - prevScale) * progress
                  | None \<Rightarrow> 0) MIN_ZOOM_RATIO;
           nextX = (case targetPosition of Some p \<Rightarrow> prevX + (fst p - prevX) * progress
                    | None \<Rightarrow> 0);
           nextY = (case targetPosition of Some p \<Rightarrow> prevY + (snd p - prevY) * progress
                    | None \<Rightarrow> 0);
           newScale = Scale (toFixed2 nextScale);
           newTranslate = Translate3d (Math_trunc nextX) (Math_trunc nextY);
           t1 = (if targetPosition \<noteq> None then writeComponent isTranslate newTranslate el
                 else el);
           t2 = (if targetScale \<noteq> None then writeComponent isScale newScale t1 else t1)
       in (t2, progress < 1)))"

text \<open>
  The frames of one animation: \<open>animate\<close> runs at each frame time the window
  delivers, as long as the previous run requested a next frame.
\<close>

fun animateFrames ::
  "real \<Rightarrow> real \<Rightarrow> real \<times> real \<times> real \<Rightarrow> real option \<Rightarrow> (real \<times> real) option
   \<Rightarrow> Transform \<Rightarrow> real list \<Rightarrow> Transform" where
  "animateFrames duration startTime prev targetScale targetPosition el [] = el"
| "animateFrames duration startTime prev targetScale targetPosition el (t # ts) =
     (case animate duration startTime prev targetScale targetPosition el t of
        (el', again) \<Rightarrow>
          if again then animateFrames duration startTime prev targetScale targetPosition el' ts
          else el')"

text \<open>
  \<open>animateTransform\<close>: \<open>options\<close> is the optional duration (150 when absent),
  \<open>startTime\<close> the value of \<open>performance.now()\<close> at the call, \<open>frames\<close> the times of
  the animation frames that follow.
\<close>

definition animateTransform ::
  "Transform \<Rightarrow> real option \<Rightarrow> (real \<times> real) option \<Rightarrow> real option \<Rightarrow> real \<Rightarrow> real list
   \<Rightarrow> Transform" where
  "animateTransform el targetScale targetPosition options startTime frames =
     (let duration = (case options of Some d \<Rightarrow> d | None \<Rightarrow> 150);
          (prevX, prevY) = getPrevTransformedPosition el;
          prevScale = getPrevTransformedScale el
      in animateFrames duration startTime (prevX, prevY, prevScale) targetScale targetPosition
           el frames)"

definition setTranslate :: "Transform \<Rightarrow> real \<Rightarrow> real \<Rightarrow> Transform" where
  \<comment> \<open>\<open>setTranslate(element, x, y)\<close>, the immediate mode (\<open>animate = false\<close>)\<close>
  "setTranslate el vx vy =
     writeComponent isTranslate (Translate3d (Math_trunc vx) (Math_trunc vy)) el"

definition setTranslateAnimated :: "Transform \<Rightarrow> real \<Rightarrow> real \<Rightarrow> real \<Rightarrow> real list \<Rightarrow> Transform" where
  \<comment> \<open>\<open>setTranslate(element, x, y, true)\<close>\<close>
  "setTranslateAnimated el vx vy startTime frames =
     animateTransform el None (Some (vx, vy)) None startTime frames"

definition setScale ::
  "Transform \<Rightarrow> real \<Rightarrow> (real \<times> real) option \<Rightarrow> real option \<Rightarrow> real \<Rightarrow> real list \<Rightarrow> Transform" where
  \<comment> \<open>an absent \<open>position\<close> is the origin: \<open>const { nextX = 0, nextY = 0 } = position ?? {}\<close>\<close>
  "setScale el sc position options startTime frames =
     animateTransform el (Some sc)
       (Some (case position of Some p \<Rightarrow> p | None \<Rightarrow> (0, 0))) options startTime frames"

definition getTransformedPosition :: "real \<times> real \<Rightarrow> real \<Rightarrow> real \<times> real \<Rightarrow> real \<times> real" where
  "getTransformedPosition currentPosition sc containerSize =
     (let centerX = fst containerSize / 2;
          centerY = snd containerSize / 2;
          distX = fst currentPosition - centerX;
          distY = snd currentPosition - centerY
      in (centerX + distX * sc, centerY + distY * sc))"

subsection \<open>getNextPosition: the bounds resolver\<close>

record Rect =
  width :: real
  height :: real

text \<open>
  What \<open>getBoundingClientRect\<close> returns for the viewer and for the target element
  at the time of a call. Where a layout is optional, \<open>None\<close> stands for the
  viewer not being mounted: \<open>viewerRef.current\<close> and \<open>targetElement\<close> are null.
\<close>

record Layout =
  viewerRect :: Rect
  targetRect :: Rect

record ViewerProps =
  isInBounds :: bool
  fitOnInit :: bool
  centerOnInit :: bool
  isDisabled :: bool

definition defaultViewerProps :: ViewerProps where
  "defaultViewerProps =
     \<lparr>isInBounds = True, fitOnInit = True, centerOnInit = True, isDisabled = False\<rparr>"

text \<open>The result \<open>{nextX, nextY, isOverBounds}\<close>; \<open>isOverBounds\<close> is absent on the early return.\<close>

record NextPosition =
  nextX :: real
  nextY :: real
  isOverBounds :: "bool option"

definition getNextPosition ::
  "bool \<Rightarrow> Layout option \<Rightarrow> real \<Rightarrow> real \<Rightarrow> real \<Rightarrow> real \<Rightarrow> NextPosition" where
  "getNextPosition inBounds lay vx vy inBoundsOffset zoomR =
     (case lay of
        None \<Rightarrow> \<lparr>nextX = vx, nextY = vy, isOverBounds = None\<rparr>
      | Some l \<Rightarrow>
        (let vw = width (viewerRect l);
             vh = height (viewerRect l);
             targetWidth = width (targetRect l) * zoomR;
             targetHeight = height (targetRect l) * zoomR
         in if inBounds then
              (let isOverWidth = (targetWidth \<ge> vw);
                   isOverHeight = (targetHeight \<ge> vh);
                   isLeftOverBounds = (vx > inBoundsOffset);
                   isRightOverBounds = (vx + targetWidth < vw - inBoundsOffset);
                   isTopOverBounds = (vy > inBoundsOffset);
                   isBottomOverBounds = (vy + targetHeight < vh - inBoundsOffset);
                   (x1, o1) =
                     (if \<not> isOverWidth then
                        (let (xa, oa) = (if vx < 0 then (0, True) else (vx, False))
                         in if xa + targetWidth > vw then (vw - targetWidth, True)
                            else (xa, oa))
                      else
                        (let (xa, oa) = (if isLeftOverBounds then (0, True) else (vx, False))
                         in if isRightOverBounds then (vw - targetWidth, True)
                            else (xa, oa)));
                   (y1, o2) =
                     (if \<not> isOverHeight then
                        (let (ya, oa) = (if vy < 0 then (0, True) else (vy, o1))
                         in if ya + targetHeight > vh then (vh - targetHeight, True)
                            else (ya, oa))
                      else
                        (let (ya, oa) = (if isTopOverBounds then (0, True) else (vy, o1))
                         in if isBottomOverBounds then (vh - targetHeight, True)
                            else (ya, oa)))
               in if isOverWidth \<and> isOverHeight then
                    \<lparr>nextX = (if isLeftOverBounds then 0
                              else if isRightOverBounds then vw - targetWidth else x1),
                     nextY = (if isTopOverBounds then 0
                              else if isBottomOverBounds then vh - targetHeight else y1),
                     isOverBounds =
                       Some (isLeftOverBounds \<or> isRightOverBounds \<or> isTopOverBounds
                             \<or> isBottomOverBounds)\<rparr>
                  else \<lparr>nextX = x1, nextY = y1, isOverBounds = Some o2\<rparr>)
            else \<lparr>nextX = vx, nextY = vy, isOverBounds = Some False\<rparr>))"

subsection \<open>The viewer's state and its pan handlers\<close>

text \<open>
  The target element's style and the viewer's three ref cells. In this version of
  the source \<open>moveElementAfterPanEndFrame\<close> is only ever assigned \<open>null\<close>.
\<close>

record ViewerState =
  element :: Transform
  prevTargetPosition :: "real \<times> real"
  moveElementAfterPanEndFrame :: "nat option"
  findTargetElementRetryCount :: nat

definition setElementEndPosition ::
  "bool \<Rightarrow> Layout option \<Rightarrow> real \<Rightarrow> real list \<Rightarrow> Transform \<Rightarrow> real \<Rightarrow> real \<Rightarrow> Transform" where
  "setElementEndPosition inBounds lay startTime frames el vx vy =
     (case lay of
        None \<Rightarrow> el
      | Some l \<Rightarrow>
        (let np = getNextPosition inBounds lay vx vy 0 1
         in setTranslateAnimated el (nextX np) (nextY np) startTime frames))"

text \<open>
  The single frame of \<open>moveElementAfterPanEnd\<close>: the new style, the decayed force, the
  arguments of the \<open>onEnd\<close> call if it is made, and whether a further frame is
  requested (the request is commented out in the source).
\<close>

record MomentumFrame =
  frameElement :: Transform
  frameForce :: real
  frameOnEnd :: "(real \<times> real) option"
  frameRequested :: bool

definition moveElementAfterPanEnd ::
  "bool \<Rightarrow> Layout option \<Rightarrow> Transform \<Rightarrow> real \<Rightarrow> real \<Rightarrow> MomentumFrame" where
  "moveElementAfterPanEnd inBounds lay el initialForce dir =
     (case lay of
        None \<Rightarrow> \<lparr>frameElement = el, frameForce = initialForce, frameOnEnd = None,
                 frameRequested = False\<rparr>
      | Some l \<Rightarrow>
        (let directionRadian = dir * pi / 180;
             prevScale = getPrevTransformedScale el;
             scalingFactor = 3 * (real_of_int (Math_round (prevScale * (3 / 10))) + 1);
             distance = initialForce * scalingFactor;
             dx = distance * cos directionRadian;
             dy = distance * sin directionRadian;
             (prevX, prevY) = getPrevTransformedPosition el;
             nx = prevX + dx;
             ny = prevY + dy;
             np = getNextPosition inBounds lay nx ny (max (initialForce * 3) 10) 1;
             el' = setTranslate el nx ny;
             f = initialForce * (95 / 100)
         in if isOverBounds np = Some True then
              \<lparr>frameElement = el', frameForce = f, frameOnEnd = Some (nx, ny),
               frameRequested = False\<rparr>
            else if f > 3 / 10 then
              \<lparr>frameElement = el', frameForce = f, frameOnEnd = None, frameRequested = False\<rparr>
            else
              \<lparr>frameElement = el', frameForce = f, frameOnEnd = Some (nx, ny),
               frameRequested = False\<rparr>))"



text \<open>
  \<open>onPanEnd\<close>, with the callback \<open>(x, y) => setElementEndPosition({ x, y })\<close> it passes
  to \<open>moveElementAfterPanEnd\<close> run when the frame calls it. \<open>startTime\<close> and \<open>frames\<close>
  are those of the one animated translation that may follow.
\<close>

definition onPanEnd ::
  "ViewerProps \<Rightarrow> Layout option \<Rightarrow> real \<Rightarrow> real list \<Rightarrow> SwiperMatrix \<Rightarrow> ViewerState
   \<Rightarrow> ViewerState" where
  "onPanEnd props lay startTime frames panMatrix st =
     (if isDisabled props \<or> lay = None then st
      else
        (let (prevX, prevY) = getPrevTransformedPosition (element st);
             np = getNextPosition (isInBounds props) lay prevX prevY 30 1
         in if isOverBounds np = Some True \<or> force panMatrix = 0 then
              st\<lparr>element :=
                   setElementEndPosition (isInBounds props) lay startTime frames (element st)
                     (nextX np) (nextY np)\<rparr>
            else
              (let r = moveElementAfterPanEnd (isInBounds props) lay (element st)
                         (force panMatrix) (directionAngle panMatrix)
               in case frameOnEnd r of
                    None \<Rightarrow> st\<lparr>element := frameElement r\<rparr>
                  | Some p \<Rightarrow>
                      st\<lparr>element :=
                           setElementEndPosition (isInBounds props) lay startTime frames
                             (frameElement r) (fst p) (snd p),
                         moveElementAfterPanEndFrame := None\<rparr>)))"

subsection \<open>useGesture\<close>






subsection \<open>initTargetElement\<close>

definition FIND_TARGET_ELEMENT_RETRY_MAX_COUNT :: nat where
  "FIND_TARGET_ELEMENT_RETRY_MAX_COUNT = 30"

text \<open>
  The value of the variable \<open>initScale\<close> after the \<open>if (fitOnInit)\<close> block. The
  quotients are taken in the reals; a rectangle with a zero extent, where
  JavaScript divides by zero, is outside the results below.
\<close>

definition initScale :: "bool \<Rightarrow> Layout \<Rightarrow> real" where
  "initScale fit l =
     (if fit then
        (let viewerRatio = width (viewerRect l) / height (viewerRect l);
             targetRatio = width (targetRect l) / height (targetRect l)
         in if targetRatio > viewerRatio
            then width (viewerRect l) / width (targetRect l)
            else height (viewerRect l) / height (targetRect l))
      else 1)"

text \<open>
  One call of \<open>initTargetElement\<close>: the new state, the arguments of the \<open>onInit\<close>
  calls, and whether a retry was scheduled with \<open>setTimeout\<close>.
\<close>

definition initTargetElement ::
  "ViewerProps \<Rightarrow> Layout option \<Rightarrow> real \<Rightarrow> real list \<Rightarrow> ViewerState
   \<Rightarrow> ViewerState \<times> real list \<times> bool" where
  "initTargetElement props lay startTime frames st =
     (case lay of
        None \<Rightarrow> (st, [], False)
      | Some l \<Rightarrow>
        if width (targetRect l) = 0 \<and> height (targetRect l) = 0 then
          (if isDisabled props then (st, [], False)
           else
             (let st1 = st\<lparr>findTargetElementRetryCount := findTargetElementRetryCount st + 1\<rparr>
              in if findTargetElementRetryCount st1 > FIND_TARGET_ELEMENT_RETRY_MAX_COUNT
                 then (st1, [], False) else (st1, [], True)))
        else
          (let vw = width (viewerRect l);
               vh = height (viewerRect l);
               isOverWidth = (width (targetRect l) \<ge> vw);
               isOverHeight = (height (targetRect l) \<ge> vh);
               sc = initScale (fitOnInit props) l;
               prevScale = getPrevTransformedScale (element st);
               (el1, calls1) =
                 (if fitOnInit props \<and> sc \<noteq> 1 \<and> \<not> centerOnInit props then
                    (setScale (element st) (prevScale * sc) None (Some 0) startTime frames,
                     [prevScale * sc])
                  else (element st, []));
               (el2, calls2) =
                 (if centerOnInit props then
                    (let prevX = (if isOverWidth then 0 else vw / 2 - width (targetRect l) / 2);
                         prevY = (if isOverHeight then 0
                                  else vh / 2 - height (targetRect l) / 2);
                         (px, py) = getTransformedPosition (prevX, prevY) sc (vw, vh);
                         np = getNextPosition (isInBounds props) lay px py 0 sc
                     in (setScale el1 (prevScale * sc) (Some (nextX np, nextY np)) (Some 0)
                           startTime frames,
                         [prevScale * sc]))
                  else (el1, []))
           in (st\<lparr>element := el2\<rparr>, calls1 @ calls2, False)))"

section \<open>The zoom controller: results\<close>




text \<open>
  C10. \<open>setZoomRatio r\<close> stores exactly \<open>r\<close>: the step and the floor are left as
  they were, the value is neither clamped nor rounded, nothing is dispatched, and
  \<open>getZoomRatio\<close> then returns \<open>r\<close>, also below the floor.
\<close>

theorem setZoomRatio_stores_exactly:
  "getZoomRatio (fst (setZoomRatio r c)) = r
   \<and> snd (setZoomRatio r c) = []
   \<and> zoomRatioStep (fst (setZoomRatio r c)) = zoomRatioStep c
   \<and> minZoomRatio (fst (setZoomRatio r c)) = minZoomRatio c"
  by (simp add: setZoomRatio_def getZoomRatio_def)


section \<open>The motion sampler: results\<close>

lemma runHandlers_idle: "h s ev = (s, []) \<Longrightarrow> runHandlers n h s ev = (s, [])"
  by (induction n) simp_all

lemma handleEnd_not_swiping: "\<not> isSwiping (fst (handleEnd props s ev))"
  by (simp add: handleEnd_def Let_def case_prod_beta)

text \<open>
  C9. A move event that arrives while no gesture is active is ignored: \<open>handleMove\<close>
  returns the state as it was (the motion record and its positions included) and
  calls no callback, and so does the window's delivery of the event to the
  registered handlers. No gesture is active in the hook's initial state, and none
  is after \<open>handleEnd\<close>.
\<close>

theorem move_without_active_gesture_ignored:
  assumes "\<not> isSwiping s"
  shows "handleMove props s ev = (s, []) \<and> windowMove props s ev = (s, [])
         \<and> \<not> isSwiping useSwipe \<and> \<not> isSwiping (fst (handleEnd props s' ev'))"
proof -
  from assms have h: "handleMove props s ev = (s, [])"
    by (simp add: handleMove_def)
  then have "windowMove props s ev = (s, [])"
    unfolding windowMove_def by (rule runHandlers_idle)
  moreover have "\<not> isSwiping useSwipe"
    by (simp add: useSwipe_def)
  ultimately show ?thesis
    using h handleEnd_not_swiping by simp
qed

theorem move_without_active_gesture_ignored_witness:
  "\<not> isSwiping useSwipe
   \<and> handleMove defaultSwipeProps useSwipe \<lparr>clientX = 5, clientY = 7, eventTimeStamp = 3\<rparr>
       = (useSwipe, [])
   \<and> windowMove defaultSwipeProps useSwipe \<lparr>clientX = 5, clientY = 7, eventTimeStamp = 3\<rparr>
       = (useSwipe, [])"
proof -
  have n: "\<not> isSwiping useSwipe"
    by (simp add: useSwipe_def)
  from n move_without_active_gesture_ignored [OF n, of defaultSwipeProps
      "\<lparr>clientX = 5, clientY = 7, eventTimeStamp = 3\<rparr>"]
  show ?thesis by simp
qed

subsection \<open>The force\<close>

text \<open>
  C4. Two histories of three samples on which the code and the reference
  definition differ. In the first (a press at the origin, one move sample 50 px to
  the right after 10 ms, the release at the same point 10 ms later) the reference
  finds 50 px within 20 ms and returns the summed speed 5; the code returns 0, as
  its backward loop runs while \<open>i < positions.length - 1\<close> and never reads the
  pair of the first two samples. In the second (samples at 0, 20 and 50 px, 10 ms
  apart) the reference sums the speeds 2 and 3; the code returns 2, as its first
  loop runs while \<open>i < relevantPositions.length - 1\<close> and never reads the last pair.
\<close>

theorem calculateForceAndDirection_misses_pairs:
  "fst (calculateForceAndDirection
          [\<lparr>pos_x = 0, pos_y = 0, timeStamp = 0\<rparr>,
           \<lparr>pos_x = 50, pos_y = 0, timeStamp = 10\<rparr>,
           \<lparr>pos_x = 50, pos_y = 0, timeStamp = 20\<rparr>]) = 0
   \<and> spec_force
          [\<lparr>pos_x = 0, pos_y = 0, timeStamp = 0\<rparr>,
           \<lparr>pos_x = 50, pos_y = 0, timeStamp = 10\<rparr>,
           \<lparr>pos_x = 50, pos_y = 0, timeStamp = 20\<rparr>] = 5
   \<and> fst (calculateForceAndDirection
          [\<lparr>pos_x = 0, pos_y = 0, timeStamp = 0\<rparr>,
           \<lparr>pos_x = 20, pos_y = 0, timeStamp = 10\<rparr>,
           \<lparr>pos_x = 50, pos_y = 0, timeStamp = 20\<rparr>]) = 2
   \<and> spec_force
          [\<lparr>pos_x = 0, pos_y = 0, timeStamp = 0\<rparr>,
           \<lparr>pos_x = 20, pos_y = 0, timeStamp = 10\<rparr>,
           \<lparr>pos_x = 50, pos_y = 0, timeStamp = 20\<rparr>] = 5"
proof -
  have s400: "sqrt 400 = 20" by (rule real_sqrt_unique) simp_all
  have s900: "sqrt 900 = 30" by (rule real_sqrt_unique) simp_all
  have m1: "momentumLoop
          [\<lparr>pos_x = 0, pos_y = 0, timeStamp = 0\<rparr>,
           \<lparr>pos_x = 50, pos_y = 0, timeStamp = 10\<rparr>,
           \<lparr>pos_x = 50, pos_y = 0, timeStamp = 20\<rparr>] (Suc 0) 0 0"
    by (simp add: momentumLoop.simps Let_def)
  have c1: "fst (calculateForceAndDirection
          [\<lparr>pos_x = 0, pos_y = 0, timeStamp = 0\<rparr>,
           \<lparr>pos_x = 50, pos_y = 0, timeStamp = 10\<rparr>,
           \<lparr>pos_x = 50, pos_y = 0, timeStamp = 20\<rparr>]) = 0"
    unfolding calculateForceAndDirection_def
    by (simp add: m1 Let_def case_prod_beta)
  have r1: "spec_force
          [\<lparr>pos_x = 0, pos_y = 0, timeStamp = 0\<rparr>,
           \<lparr>pos_x = 50, pos_y = 0, timeStamp = 10\<rparr>,
           \<lparr>pos_x = 50, pos_y = 0, timeStamp = 20\<rparr>] = 5"
    by (simp add: spec_force_def spec_speed_def Let_def)
  have f2: "forceLoop
          [\<lparr>pos_x = 0, pos_y = 0, timeStamp = 0\<rparr>,
           \<lparr>pos_x = 20, pos_y = 0, timeStamp = 10\<rparr>,
           \<lparr>pos_x = 50, pos_y = 0, timeStamp = 20\<rparr>] (Suc 0) (0, 0, 0) = (2, 20, 0)"
    by (simp add: forceLoop.simps Let_def s400)
  have m2: "\<not> momentumLoop
          [\<lparr>pos_x = 0, pos_y = 0, timeStamp = 0\<rparr>,
           \<lparr>pos_x = 20, pos_y = 0, timeStamp = 10\<rparr>,
           \<lparr>pos_x = 50, pos_y = 0, timeStamp = 20\<rparr>] (Suc 0) 0 0"
    by (simp add: momentumLoop.simps Let_def s900)
  have c2: "fst (calculateForceAndDirection
          [\<lparr>pos_x = 0, pos_y = 0, timeStamp = 0\<rparr>,
           \<lparr>pos_x = 20, pos_y = 0, timeStamp = 10\<rparr>,
           \<lparr>pos_x = 50, pos_y = 0, timeStamp = 20\<rparr>]) = 2"
    unfolding calculateForceAndDirection_def
    by (simp add: f2 m2 Let_def)
  have r2: "spec_force
          [\<lparr>pos_x = 0, pos_y = 0, timeStamp = 0\<rparr>,
           \<lparr>pos_x = 20, pos_y = 0, timeStamp = 10\<rparr>,
           \<lparr>pos_x = 50, pos_y = 0, timeStamp = 20\<rparr>] = 5"
    by (simp add: spec_force_def spec_speed_def Let_def s400 s900)
  from c1 r1 c2 r2 show ?thesis by simp
qed

subsection \<open>The direction angle\<close>

lemma arctan_at_most_arg: "0 \<le> v \<Longrightarrow> arctan v \<le> v"
proof (cases "v = 0")
  case True
  then show ?thesis by simp
next
  case False
  assume "0 \<le> v"
  with False have pos: "0 < v" by simp
  have "\<exists>z>0. z < v \<and> arctan v - arctan 0 = (v - 0) * inverse (1 + z\<^sup>2)"
    using pos by (intro MVT2) (auto intro!: DERIV_arctan)
  then obtain z where z: "arctan v = v * inverse (1 + z\<^sup>2)" by auto
  have "inverse (1 + z\<^sup>2) \<le> 1" by (simp add: inverse_le_1_iff)
  with pos have "v * inverse (1 + z\<^sup>2) \<le> v * 1" by (intro mult_left_mono) simp_all
  with z show ?thesis by simp
qed

lemma Math_atan2_bounds: "- pi < Math_atan2 b a \<and> Math_atan2 b a \<le> pi"
proof -
  have pp: "0 < pi" by simp
  note ab = arctan_bounded [of "b / a"]
  consider "0 < a" | "a < 0" "0 \<le> b" | "a < 0" "b < 0" | "a = 0" by linarith
  then show ?thesis
  proof cases
    case 1
    then show ?thesis using ab pp by (simp add: Math_atan2_def)
  next
    case 2
    then have "b / a \<le> 0" by (simp add: divide_nonneg_neg)
    then have "arctan (b / a) \<le> 0" by simp
    moreover have "Math_atan2 b a = arctan (b / a) + pi" using 2 by (simp add: Math_atan2_def)
    ultimately show ?thesis using ab pp by linarith
  next
    case 3
    then have "0 < b / a" by (simp add: divide_neg_neg)
    then have "0 < arctan (b / a)" by simp
    moreover have "Math_atan2 b a = arctan (b / a) - pi" using 3 by (simp add: Math_atan2_def)
    ultimately show ?thesis using ab pp by linarith
  next
    case 4
    have "Math_atan2 b a = pi / 2 \<or> Math_atan2 b a = - (pi / 2) \<or> Math_atan2 b a = 0"
      using 4 by (simp add: Math_atan2_def)
    then show ?thesis using pp by linarith
  qed
qed

lemma directionAngle_steps:
  "\<exists>k. snd (calculateForceAndDirection ps) = 15 * real_of_int k \<and> - 12 \<le> k \<and> k \<le> 12"
proof -
  obtain f tdx tdy where fl:
    "forceLoop (drop (nat (max (int (length ps) - 10) 0)) ps) (Suc 0) (0, 0, 0) = (f, tdx, tdy)"
    by (metis prod_cases3)
  define v where "v = Math_atan2 tdy tdx * (180 / pi) / 15"
  have s: "snd (calculateForceAndDirection ps) = real_of_int (Math_round v) * 15"
    by (simp add: calculateForceAndDirection_def Let_def fl v_def)
  have pp: "0 < pi" by simp
  have veq: "v = 12 * (Math_atan2 tdy tdx / pi)" by (simp add: v_def)
  from Math_atan2_bounds [of tdy tdx] pp
  have "- 1 < Math_atan2 tdy tdx / pi" "Math_atan2 tdy tdx / pi \<le> 1"
    by (simp_all add: field_simps)
  with veq have "- 12 < v" "v \<le> 12" by linarith+
  then have "- 12 \<le> Math_round v" "Math_round v \<le> 12"
    unfolding Math_round_def by linarith+
  with s show ?thesis by (intro exI [of _ "Math_round v"]) simp
qed

text \<open>
  C5, as the code has it. For every position history the direction angle is an
  integer multiple of 15 and lies in the closed interval from -180 to 180.
\<close>

theorem directionAngle_multiple_of_15_in_closed_range:
  "(\<exists>k. snd (calculateForceAndDirection ps) = 15 * real_of_int k)
   \<and> - 180 \<le> snd (calculateForceAndDirection ps)
   \<and> snd (calculateForceAndDirection ps) \<le> 180"
proof -
  from directionAngle_steps [of ps] obtain k where
    k: "snd (calculateForceAndDirection ps) = 15 * real_of_int k" "- 12 \<le> k" "k \<le> 12"
    by blast
  from k(2,3) have "- 180 \<le> 15 * real_of_int k" "15 * real_of_int k \<le> 180"
    by linarith+
  with k(1) show ?thesis by auto
qed

text \<open>
  C5, the lower end. A press at (200, 10), one move sample at the origin and the
  release there: the summed displacement is (-200, -10), its angle lies within
  7.5 degrees above -180, and rounding to the nearest multiple of 15 gives -180
  itself, which the half-open interval excludes.
\<close>

theorem directionAngle_minus_180:
  "snd (calculateForceAndDirection
          [\<lparr>pos_x = 200, pos_y = 10, timeStamp = 0\<rparr>,
           \<lparr>pos_x = 0, pos_y = 0, timeStamp = 10\<rparr>,
           \<lparr>pos_x = 0, pos_y = 0, timeStamp = 20\<rparr>]) = - 180
   \<and> \<not> (- 180 < snd (calculateForceAndDirection
          [\<lparr>pos_x = 200, pos_y = 10, timeStamp = 0\<rparr>,
           \<lparr>pos_x = 0, pos_y = 0, timeStamp = 10\<rparr>,
           \<lparr>pos_x = 0, pos_y = 0, timeStamp = 20\<rparr>]))"
proof -
  have fl: "forceLoop
          [\<lparr>pos_x = 200, pos_y = 10, timeStamp = 0\<rparr>,
           \<lparr>pos_x = 0, pos_y = 0, timeStamp = 10\<rparr>,
           \<lparr>pos_x = 0, pos_y = 0, timeStamp = 20\<rparr>] (Suc 0) (0, 0, 0)
        = (sqrt 40100 / 10, - 200, - 10)"
    by (simp add: forceLoop.simps Let_def)
  have a: "arctan (1 / 20) \<le> 1 / 20"
    using arctan_at_most_arg [of "1 / 20"] by simp
  have b: "0 < arctan (1 / 20 :: real)" by simp
  have p2: "2 \<le> pi" by (rule pi_ge_two)
  have "12 * arctan (1 / 20) / pi < 1 / 2"
    using a p2 by (simp add: field_simps)
  moreover have "0 < 12 * arctan (1 / 20) / pi"
    using b by simp
  ultimately have "\<lfloor>12 * arctan (1 / 20) / pi - 12 + 1 / 2\<rfloor> = - 12"
    by linarith
  then have "\<lfloor>12 * (arctan (1 / 20) - pi) / pi + 1 / 2\<rfloor> = - 12"
    by (simp add: field_simps)
  then have "snd (calculateForceAndDirection
          [\<lparr>pos_x = 200, pos_y = 10, timeStamp = 0\<rparr>,
           \<lparr>pos_x = 0, pos_y = 0, timeStamp = 10\<rparr>,
           \<lparr>pos_x = 0, pos_y = 0, timeStamp = 20\<rparr>]) = - 180"
    unfolding calculateForceAndDirection_def
    by (simp add: fl Math_atan2_def Math_round_def)
  then show ?thesis by simp
qed

section \<open>The bounds resolver: results\<close>






section \<open>Fit on init: results\<close>




section \<open>The animated scale: results\<close>

lemma toFixed2_floor: "1 / 2 \<le> v \<Longrightarrow> 1 / 2 \<le> toFixed2 v"
proof -
  assume v: "1 / 2 \<le> v"
  then have "50 \<le> \<lfloor>v * 100 + 1 / 2\<rfloor>" by linarith
  then have "50 \<le> real_of_int \<lfloor>v * 100 + 1 / 2\<rfloor>" by linarith
  with v show ?thesis by (simp add: toFixed2_def)
qed

lemma styleScale_replaceFirst:
  "list_ex isScale t \<Longrightarrow> styleScale (replaceFirst isScale (Scale k) t) = Some k"
  by (induction t rule: styleScale.induct) simp_all

lemma styleScale_append:
  "\<not> list_ex isScale t \<Longrightarrow> styleScale (t @ [Scale k]) = Some k"
  by (induction t rule: styleScale.induct) simp_all

lemma styleScale_writeComponent: "styleScale (writeComponent isScale (Scale k) t) = Some k"
  by (simp add: writeComponent_def styleScale_replaceFirst styleScale_append)

lemma m11_matrixFrom:
  "fst (matrixFrom (a, e, f) t) = a * prod_list (map scaleFactor t)"
  by (induction "(a, e, f)" t arbitrary: a e f rule: matrixFrom.induct) simp_all

lemma getPrevTransformedScale_prod:
  "getPrevTransformedScale t = prod_list (map scaleFactor t)"
  using m11_matrixFrom [of 1 0 0 t]
  by (simp add: getPrevTransformedScale_def case_prod_beta)

lemma replaceFirst_translate_scales:
  "filter isScale (replaceFirst isTranslate (Translate3d a b) t) = filter isScale t"
  by (induction t) (auto elim: isTranslate.elims isScale.elims)

lemma writeTranslate_scales:
  "filter isScale (writeComponent isTranslate (Translate3d a b) t) = filter isScale t"
  by (simp add: writeComponent_def replaceFirst_translate_scales)

lemma no_scale_factors: "filter isScale t = [] \<Longrightarrow> prod_list (map scaleFactor t) = 1"
  by (induction t rule: styleScale.induct) simp_all

lemma no_scale_list_ex: "filter isScale t = [] \<Longrightarrow> \<not> list_ex isScale t"
  by (induction t) (auto split: if_splits)

lemma one_scale_factors:
  "filter isScale t = [Scale k] \<Longrightarrow> prod_list (map scaleFactor t) = k"
proof (induction t rule: styleScale.induct)
  case 1
  then show ?case by simp
next
  case (2 k0 cs)
  then have "filter isScale cs = []" "k0 = k" by simp_all
  then show ?case by (simp add: no_scale_factors)
next
  case (3 a b cs)
  then show ?case by simp
qed

lemma one_scale_replace:
  "length (filter isScale t) = 1
   \<Longrightarrow> list_ex isScale t \<and> filter isScale (replaceFirst isScale (Scale k) t) = [Scale k]"
proof (induction t rule: styleScale.induct)
  case 1
  then show ?case by simp
next
  case (2 k0 cs)
  then show ?case by simp
next
  case (3 a b cs)
  then show ?case by simp
qed

lemma writeScale_scales:
  assumes "length (filter isScale t) \<le> 1"
  shows "filter isScale (writeComponent isScale (Scale k) t) = [Scale k]"
proof (cases "filter isScale t = []")
  case True
  then show ?thesis
    by (simp add: writeComponent_def no_scale_list_ex)
next
  case False
  with assms have "length (filter isScale t) = 1"
    by (cases "filter isScale t") simp_all
  from one_scale_replace [OF this, of k] show ?thesis
    by (simp add: writeComponent_def)
qed

text \<open>One frame that animates the scale: what it writes, and what the style then holds.\<close>

lemma animate_scale_written:
  "\<exists>k. styleScale (fst (animate d st prev (Some sc) pos el t)) = Some k
       \<and> MIN_ZOOM_RATIO \<le> k
       \<and> (length (filter isScale el) \<le> 1
            \<longrightarrow> filter isScale (fst (animate d st prev (Some sc) pos el t)) = [Scale k])"
proof -
  obtain px py ps where prev: "prev = (px, py, ps)" by (cases prev)
  define pr where "pr = (if d = 0 then 1 else min ((t - st) / d) 1)"
  define k where "k = toFixed2 (max (ps + (sc - ps) * pr) MIN_ZOOM_RATIO)"
  define t1 where "t1 = (if pos \<noteq> None
    then writeComponent isTranslate
           (Translate3d
             (Math_trunc (case pos of Some p \<Rightarrow> px + (fst p - px) * pr | None \<Rightarrow> 0))
             (Math_trunc (case pos of Some p \<Rightarrow> py + (snd p - py) * pr | None \<Rightarrow> 0))) el
    else el)"
  have res: "fst (animate d st prev (Some sc) pos el t) = writeComponent isScale (Scale k) t1"
    unfolding animate_def prev Let_def k_def pr_def t1_def by simp
  have "1 / 2 \<le> max (ps + (sc - ps) * pr) MIN_ZOOM_RATIO"
    by (simp add: MIN_ZOOM_RATIO_def)
  then have "1 / 2 \<le> k"
    unfolding k_def by (rule toFixed2_floor)
  then have floor: "MIN_ZOOM_RATIO \<le> k"
    by (simp add: MIN_ZOOM_RATIO_def)
  have sc1: "filter isScale t1 = filter isScale el"
    by (simp add: t1_def writeTranslate_scales)
  have "length (filter isScale el) \<le> 1
      \<longrightarrow> filter isScale (writeComponent isScale (Scale k) t1) = [Scale k]"
    using writeScale_scales [of t1 k] sc1 by simp
  with res floor show ?thesis
    by (intro exI [of _ k]) (simp add: styleScale_writeComponent)
qed

lemma animateFrames_scale_written:
  "\<exists>k. styleScale (animateFrames d st prev (Some sc) pos el (t # ts)) = Some k
       \<and> MIN_ZOOM_RATIO \<le> k
       \<and> (length (filter isScale el) \<le> 1
            \<longrightarrow> filter isScale (animateFrames d st prev (Some sc) pos el (t # ts)) = [Scale k])"
proof (induction ts arbitrary: el t)
  case Nil
  obtain e b where a: "animate d st prev (Some sc) pos el t = (e, b)"
    by (cases "animate d st prev (Some sc) pos el t")
  with animate_scale_written [of d st prev sc pos el t] show ?case by simp
next
  case (Cons u us)
  obtain e b where a: "animate d st prev (Some sc) pos el t = (e, b)"
    by (cases "animate d st prev (Some sc) pos el t")
  from animate_scale_written [of d st prev sc pos el t] a
  obtain k0 where k0: "styleScale e = Some k0" "MIN_ZOOM_RATIO \<le> k0"
    "length (filter isScale el) \<le> 1 \<longrightarrow> filter isScale e = [Scale k0]"
    by auto
  show ?case
  proof (cases b)
    case True
    with a have eq: "animateFrames d st prev (Some sc) pos el (t # u # us)
        = animateFrames d st prev (Some sc) pos e (u # us)" by simp
    from Cons.IH [of e u] obtain k where k:
      "styleScale (animateFrames d st prev (Some sc) pos e (u # us)) = Some k"
      "MIN_ZOOM_RATIO \<le> k"
      "length (filter isScale e) \<le> 1
         \<longrightarrow> filter isScale (animateFrames d st prev (Some sc) pos e (u # us)) = [Scale k]"
      by blast
    from k0(3) have "length (filter isScale el) \<le> 1 \<longrightarrow> length (filter isScale e) \<le> 1"
      by auto
    with k eq show ?thesis
      by (intro exI [of _ k]) simp
  next
    case False
    with a have "animateFrames d st prev (Some sc) pos el (t # u # us) = e" by simp
    with k0 show ?thesis by (intro exI [of _ k0]) simp
  qed
qed

text \<open>
  C8. When the scale is animated, the \<open>scale(...)\<close> component written by any frame
  holds a value of at least \<open>MIN_ZOOM_RATIO = 0.5\<close>, whatever the target scale
  and the frame time, and so does the style when the animation has run its
  frames. When the style had at most one \<open>scale\<close> component before (as every
  style the viewer writes has), the computed scale \<open>m11\<close> is that value.
\<close>

theorem animated_scale_at_least_floor:
  "(\<exists>k. styleScale (fst (animate d st prev (Some sc) pos el t)) = Some k
        \<and> MIN_ZOOM_RATIO \<le> k)
   \<and> (\<exists>k. styleScale (animateTransform el (Some sc) pos opts st (t # ts)) = Some k
        \<and> MIN_ZOOM_RATIO \<le> k)
   \<and> (length (filter isScale el) \<le> 1 \<longrightarrow>
        MIN_ZOOM_RATIO \<le> getPrevTransformedScale (fst (animate d st prev (Some sc) pos el t))
        \<and> MIN_ZOOM_RATIO
            \<le> getPrevTransformedScale (animateTransform el (Some sc) pos opts st (t # ts)))
   \<and> MIN_ZOOM_RATIO = 1 / 2"
proof -
  define dur where "dur = (case opts of Some d' \<Rightarrow> d' | None \<Rightarrow> (150 :: real))"
  define pv where "pv = (fst (getPrevTransformedPosition el), snd (getPrevTransformedPosition el),
    getPrevTransformedScale el)"
  have at: "animateTransform el (Some sc) pos opts st (t # ts)
      = animateFrames dur st pv (Some sc) pos el (t # ts)"
    by (simp add: animateTransform_def Let_def case_prod_beta dur_def pv_def)
  from animate_scale_written [of d st prev sc pos el t] obtain k1 where k1:
    "styleScale (fst (animate d st prev (Some sc) pos el t)) = Some k1"
    "MIN_ZOOM_RATIO \<le> k1"
    "length (filter isScale el) \<le> 1
       \<longrightarrow> filter isScale (fst (animate d st prev (Some sc) pos el t)) = [Scale k1]"
    by blast
  from animateFrames_scale_written [of dur st pv sc pos el t ts] obtain k2 where k2:
    "styleScale (animateFrames dur st pv (Some sc) pos el (t # ts)) = Some k2"
    "MIN_ZOOM_RATIO \<le> k2"
    "length (filter isScale el) \<le> 1
       \<longrightarrow> filter isScale (animateFrames dur st pv (Some sc) pos el (t # ts)) = [Scale k2]"
    by blast
  have a: "\<exists>k. styleScale (fst (animate d st prev (Some sc) pos el t)) = Some k
        \<and> MIN_ZOOM_RATIO \<le> k"
    using k1 by blast
  have b: "\<exists>k. styleScale (animateTransform el (Some sc) pos opts st (t # ts)) = Some k
        \<and> MIN_ZOOM_RATIO \<le> k"
    using k2 at by auto
  have c: "length (filter isScale el) \<le> 1 \<longrightarrow>
        MIN_ZOOM_RATIO \<le> getPrevTransformedScale (fst (animate d st prev (Some sc) pos el t))
        \<and> MIN_ZOOM_RATIO
            \<le> getPrevTransformedScale (animateTransform el (Some sc) pos opts st (t # ts))"
  proof
    assume one: "length (filter isScale el) \<le> 1"
    with k1 have "getPrevTransformedScale (fst (animate d st prev (Some sc) pos el t)) = k1"
      by (simp add: getPrevTransformedScale_prod one_scale_factors)
    moreover from one k2 at
    have "getPrevTransformedScale (animateTransform el (Some sc) pos opts st (t # ts)) = k2"
      by (simp add: getPrevTransformedScale_prod one_scale_factors)
    ultimately show "MIN_ZOOM_RATIO
          \<le> getPrevTransformedScale (fst (animate d st prev (Some sc) pos el t))
        \<and> MIN_ZOOM_RATIO
            \<le> getPrevTransformedScale (animateTransform el (Some sc) pos opts st (t # ts))"
      using k1(2) k2(2) by simp
  qed
  from a b c show ?thesis by (simp add: MIN_ZOOM_RATIO_def)
qed

text \<open>
  A style \<open>translate3d(0px, 0px, 0px) scale(1.00)\<close> animated to the target scale 0.1
  over 150 ms, with frames at 75 ms and 150 ms: the computed scale ends at the floor.
\<close>

theorem animated_scale_at_least_floor_witness:
  "length (filter isScale [Translate3d 0 0, Scale 1]) \<le> 1
   \<and> MIN_ZOOM_RATIO \<le> getPrevTransformedScale
        (animateTransform [Translate3d 0 0, Scale 1] (Some (1 / 10)) (Some (0, 0)) None 0
           [75, 150])
   \<and> animateTransform [Translate3d 0 0, Scale 1] (Some (1 / 10)) (Some (0, 0)) None 0 [75, 150]
       = [Translate3d 0 0, Scale (1 / 2)]"
proof -
  have one: "length (filter isScale [Translate3d 0 0, Scale 1]) \<le> 1" by simp
  have f1: "\<lfloor>(111::real) / 2\<rfloor> = 55" by simp
  have f2: "\<lfloor>(101::real) / 2\<rfloor> = 50" by simp
  have run: "animateTransform [Translate3d 0 0, Scale 1] (Some (1 / 10)) (Some (0, 0)) None 0
      [75, 150] = [Translate3d 0 0, Scale (1 / 2)]"
    by (simp add: animateTransform_def animate_def getPrevTransformedPosition_def
        getPrevTransformedScale_def writeComponent_def toFixed2_def Math_trunc_def
        MIN_ZOOM_RATIO_def Let_def f1 f2)
  from one run animated_scale_at_least_floor
      [of 150 0 "(0, 0, 1)" "1 / 10" "Some (0, 0)" "[Translate3d 0 0, Scale 1]" 75 None "[150]"]
  show ?thesis by simp
qed

section \<open>Momentum after release: results\<close>

text \<open>
  C2, as the code has it. The continuation runs one frame: it writes one
  translation (to the candidate position, truncated), multiplies the force by 0.95,
  requests no further frame, and calls \<open>onEnd\<close> with the candidate position exactly
  when the decayed force is at most 0.3 or the bounds resolver reports the
  candidate out of bounds; otherwise \<open>onEnd\<close> is not called. After a release
  with nonzero force that is not out of bounds, \<open>onPanEnd\<close> leaves the element as
  that frame left it, followed by the animated end position if \<open>onEnd\<close> was called.
\<close>

theorem moveElementAfterPanEnd_single_frame:
  "(let sf = 3 * (real_of_int (Math_round (getPrevTransformedScale el * (3 / 10))) + 1);
        nx = fst (getPrevTransformedPosition el) + f0 * sf * cos (dir * pi / 180);
        ny = snd (getPrevTransformedPosition el) + f0 * sf * sin (dir * pi / 180);
        r = moveElementAfterPanEnd inB (Some l) el f0 dir
    in frameElement r = setTranslate el nx ny
       \<and> frameForce r = f0 * (95 / 100)
       \<and> frameRequested r = False
       \<and> frameOnEnd r =
           (if f0 * (95 / 100) \<le> 3 / 10
               \<or> isOverBounds (getNextPosition inB (Some l) nx ny (max (f0 * 3) 10) 1) = Some True
            then Some (nx, ny) else None))
   \<and> (\<not> isDisabled props \<and> force m \<noteq> 0
        \<and> isOverBounds
             (getNextPosition (isInBounds props) (Some l)
                (fst (getPrevTransformedPosition (element st)))
                (snd (getPrevTransformedPosition (element st))) 30 1) \<noteq> Some True
       \<longrightarrow>
        element (onPanEnd props (Some l) t0 frames m st) =
          (let r = moveElementAfterPanEnd (isInBounds props) (Some l) (element st)
                     (force m) (directionAngle m)
           in case frameOnEnd r of
                None \<Rightarrow> frameElement r
              | Some p \<Rightarrow>
                  setElementEndPosition (isInBounds props) (Some l) t0 frames (frameElement r)
                    (fst p) (snd p)))"
proof -
  have a: "(let sf = 3 * (real_of_int (Math_round (getPrevTransformedScale el * (3 / 10))) + 1);
        nx = fst (getPrevTransformedPosition el) + f0 * sf * cos (dir * pi / 180);
        ny = snd (getPrevTransformedPosition el) + f0 * sf * sin (dir * pi / 180);
        r = moveElementAfterPanEnd inB (Some l) el f0 dir
    in frameElement r = setTranslate el nx ny
       \<and> frameForce r = f0 * (95 / 100)
       \<and> frameRequested r = False
       \<and> frameOnEnd r =
           (if f0 * (95 / 100) \<le> 3 / 10
               \<or> isOverBounds (getNextPosition inB (Some l) nx ny (max (f0 * 3) 10) 1) = Some True
            then Some (nx, ny) else None))"
    by (simp add: moveElementAfterPanEnd_def Let_def case_prod_beta not_less)
  have b: "\<not> isDisabled props \<and> force m \<noteq> 0
        \<and> isOverBounds
             (getNextPosition (isInBounds props) (Some l)
                (fst (getPrevTransformedPosition (element st)))
                (snd (getPrevTransformedPosition (element st))) 30 1) \<noteq> Some True
       \<longrightarrow>
        element (onPanEnd props (Some l) t0 frames m st) =
          (let r = moveElementAfterPanEnd (isInBounds props) (Some l) (element st)
                     (force m) (directionAngle m)
           in case frameOnEnd r of
                None \<Rightarrow> frameElement r
              | Some p \<Rightarrow>
                  setElementEndPosition (isInBounds props) (Some l) t0 frames (frameElement r)
                    (fst p) (snd p))"
    by (simp add: onPanEnd_def Let_def case_prod_beta split: option.split)
  from a b show ?thesis by (rule conjI)
qed

text \<open>
  A 2000 by 1000 content at scale 1 in a 500 by 500 viewport, translated to
  (-475, -300), released with force 2.5 at angle 0. The release is not out of bounds;
  the frame moves the element by 7.5 to (-467, -300); the decayed force 2.375 is
  above 0.3 and the candidate is within bounds, so \<open>onEnd\<close> is not called.
\<close>

theorem moveElementAfterPanEnd_single_frame_witness:
  "\<not> isDisabled defaultViewerProps
   \<and> force (initialSwiperMatrix\<lparr>force := 5 / 2, directionAngle := 0\<rparr>) \<noteq> 0
   \<and> isOverBounds
        (getNextPosition (isInBounds defaultViewerProps)
           (Some \<lparr>viewerRect = \<lparr>width = 500, height = 500\<rparr>,
                  targetRect = \<lparr>width = 2000, height = 1000\<rparr>\<rparr>)
           (fst (getPrevTransformedPosition [Translate3d (- 475) (- 300), Scale 1]))
           (snd (getPrevTransformedPosition [Translate3d (- 475) (- 300), Scale 1])) 30 1)
       \<noteq> Some True
   \<and> element
        (onPanEnd defaultViewerProps
           (Some \<lparr>viewerRect = \<lparr>width = 500, height = 500\<rparr>,
                  targetRect = \<lparr>width = 2000, height = 1000\<rparr>\<rparr>)
           0 [16, 200]
           (initialSwiperMatrix\<lparr>force := 5 / 2, directionAngle := 0\<rparr>)
           \<lparr>element = [Translate3d (- 475) (- 300), Scale 1], prevTargetPosition = (- 500, - 300),
            moveElementAfterPanEndFrame = None, findTargetElementRetryCount = 0\<rparr>)
       = [Translate3d (- 467) (- 300), Scale 1]"
proof -
  have c: "\<lceil>- (935::real) / 2\<rceil> = - 467" by simp
  have r: "moveElementAfterPanEnd True
       (Some \<lparr>viewerRect = \<lparr>width = 500, height = 500\<rparr>,
              targetRect = \<lparr>width = 2000, height = 1000\<rparr>\<rparr>)
       [Translate3d (- 475) (- 300), Scale 1] (5 / 2) 0
     = \<lparr>frameElement = [Translate3d (- 467) (- 300), Scale 1], frameForce = 19 / 8,
        frameOnEnd = None, frameRequested = False\<rparr>"
    by (simp add: moveElementAfterPanEnd_def getPrevTransformedScale_def
        getPrevTransformedPosition_def getNextPosition_def setTranslate_def writeComponent_def
        Math_round_def Math_trunc_def Let_def c)
  from r moveElementAfterPanEnd_single_frame
    [of "[Translate3d (- 475) (- 300), Scale 1]" "5 / 2" 0 True
        "\<lparr>viewerRect = \<lparr>width = 500, height = 500\<rparr>,
          targetRect = \<lparr>width = 2000, height = 1000\<rparr>\<rparr>"
        defaultViewerProps "initialSwiperMatrix\<lparr>force := 5 / 2, directionAngle := 0\<rparr>"
        "\<lparr>element = [Translate3d (- 475) (- 300), Scale 1], prevTargetPosition = (- 500, - 300),
          moveElementAfterPanEndFrame = None, findTargetElementRetryCount = 0\<rparr>"
        0 "[16, 200]"]
  show ?thesis
    by (simp add: defaultViewerProps_def initialSwiperMatrix_def getPrevTransformedPosition_def
        getNextPosition_def Let_def)
qed

text \<open>
  C2, the completion callback. In the same situation the continuation has ended
  (no frame is requested) and \<open>onEnd\<close> was not called: the release had nonzero
  force and was not out of bounds, yet the callback is not always invoked.
\<close>

theorem moveElementAfterPanEnd_no_callback:
  "isOverBounds
     (getNextPosition True
        (Some \<lparr>viewerRect = \<lparr>width = 500, height = 500\<rparr>,
               targetRect = \<lparr>width = 2000, height = 1000\<rparr>\<rparr>) (- 475) (- 300) 30 1)
     = Some False
   \<and> frameOnEnd
       (moveElementAfterPanEnd True
          (Some \<lparr>viewerRect = \<lparr>width = 500, height = 500\<rparr>,
                 targetRect = \<lparr>width = 2000, height = 1000\<rparr>\<rparr>)
          [Translate3d (- 475) (- 300), Scale 1] (5 / 2) 0) = None
   \<and> frameRequested
       (moveElementAfterPanEnd True
          (Some \<lparr>viewerRect = \<lparr>width = 500, height = 500\<rparr>,
                 targetRect = \<lparr>width = 2000, height = 1000\<rparr>\<rparr>)
          [Translate3d (- 475) (- 300), Scale 1] (5 / 2) 0) = False"
proof -
  have c: "\<lceil>- (935::real) / 2\<rceil> = - 467" by simp
  have r: "moveElementAfterPanEnd True
       (Some \<lparr>viewerRect = \<lparr>width = 500, height = 500\<rparr>,
              targetRect = \<lparr>width = 2000, height = 1000\<rparr>\<rparr>)
       [Translate3d (- 475) (- 300), Scale 1] (5 / 2) 0
     = \<lparr>frameElement = [Translate3d (- 467) (- 300), Scale 1], frameForce = 19 / 8,
        frameOnEnd = None, frameRequested = False\<rparr>"
    by (simp add: moveElementAfterPanEnd_def getPrevTransformedScale_def
        getPrevTransformedPosition_def getNextPosition_def setTranslate_def writeComponent_def
        Math_round_def Math_trunc_def Let_def c)
  have n: "isOverBounds
     (getNextPosition True
        (Some \<lparr>viewerRect = \<lparr>width = 500, height = 500\<rparr>,
               targetRect = \<lparr>width = 2000, height = 1000\<rparr>\<rparr>) (- 475) (- 300) 30 1)
     = Some False"
    by (simp add: getNextPosition_def Let_def)
  from r n show ?thesis by simp
qed

section \<open>Release below the threshold: results\<close>
















end
